theory Spec2Isabelle
  imports Main "HOL-Library.Word" "HOL-Library.AList"
begin

unbundle bit_operations_syntax

section \<open>The Swiss Ephemeris JNI wrapper (swisseph_wrapper.cpp)\<close>

text \<open>
  The wrapper is a sequence of calls: into the Swiss Ephemeris library (whose sources are
  not part of the files at hand) and into the JNI function table. Both are made explicit.
  The library is a parameter of every wrapper function; its process-wide data is a state
  that every library call takes and hands back. The JNI calls the wrapper uses to build
  Java collections are modelled on the Java objects themselves.
\<close>

subsection \<open>JNI primitive types\<close>

text \<open>
  \<open>jint\<close> is a signed 32-bit integer, \<open>jboolean\<close> an unsigned byte. A \<open>jdouble\<close> is kept
  as its IEEE-754 binary64 bit pattern: the wrapper only moves doubles around and never
  computes with them; the literal \<open>0.0\<close> is the pattern \<open>0\<close>.
\<close>

type_synonym jint = "32 word"
type_synonym jdouble = "64 word"
type_synonym jboolean = "8 word"

definition JNI_FALSE :: jboolean where
  "JNI_FALSE = 0"

definition JNI_TRUE :: jboolean where
  "JNI_TRUE = 1"

definition JNI_VERSION_1_6 :: jint where
  "JNI_VERSION_1_6 = 0x00010006"

text \<open>A C array \<open>double a[n]\<close> after a callee has filled it: slot \<open>i\<close> is \<open>a i\<close>.\<close>

type_synonym double_array = "nat \<Rightarrow> jdouble"

subsection \<open>How a call ends\<close>

text \<open>
  A call either returns a value; or is left by an exception of the \<open>std::exception\<close>
  family (\<open>Raises\<close>, the one kind every handler of the wrapper names); or is left by an
  exception of any other type, as after \<open>throw 42\<close> (\<open>RaisesOther\<close>, which no handler of
  the wrapper names); or breaks the contract of the JNI function it calls, after which
  JNI defines no behaviour. Each carries the library state reached at that point.
\<close>

datatype ('a, 's) outcome =
    Returns 'a 's
  | Raises 's
  | RaisesOther 's
  | JniUndefined 's

fun state_of :: "('a, 's) outcome \<Rightarrow> 's" where
  "state_of (Returns v s) = s"
| "state_of (Raises s) = s"
| "state_of (RaisesOther s) = s"
| "state_of (JniUndefined s) = s"

text \<open>Sequencing: the rest of a block runs only when the call before it returned.\<close>

definition then_do :: "('a, 's) outcome \<Rightarrow> ('a \<Rightarrow> 's \<Rightarrow> ('b, 's) outcome) \<Rightarrow> ('b, 's) outcome" where
  "then_do r k =
     (case r of
        Returns v s \<Rightarrow> k v s
      | Raises s \<Rightarrow> Raises s
      | RaisesOther s \<Rightarrow> RaisesOther s
      | JniUndefined s \<Rightarrow> JniUndefined s)"

text \<open>
  \<open>try { body } catch (const std::exception& e) { handler }\<close>: the handler takes over
  an exception of the \<open>std::exception\<close> family and nothing else.
\<close>

definition try_catch :: "('a, 's) outcome \<Rightarrow> ('s \<Rightarrow> ('a, 's) outcome) \<Rightarrow> ('a, 's) outcome" where
  "try_catch body handler =
     (case body of
        Returns v s \<Rightarrow> Returns v s
      | Raises s \<Rightarrow> handler s
      | RaisesOther s \<Rightarrow> RaisesOther s
      | JniUndefined s \<Rightarrow> JniUndefined s)"

subsection \<open>The library, as the wrapper sees it\<close>

text \<open>
  The six entry points of \<open>sweph/sweph.h\<close> that the wrapper calls, the two flag constants
  it passes, and three readers of the library's process-wide data: its ephemeris path,
  its sidereal mode, and whether its diagnostic (message) handle is open. Output arrays
  (\<open>xx\<close>, \<open>cusps\<close>, \<open>ascmc\<close>) and the error text \<open>serr\<close> are returned next to the status.
  \<open>swe_houses\<close> takes no \<open>serr\<close> in the source.
\<close>

record 's swe_lib =
  swe_set_ephe_path :: "string \<Rightarrow> 's \<Rightarrow> (unit, 's) outcome"
  swe_set_sid_mode :: "jint \<Rightarrow> jdouble \<Rightarrow> jdouble \<Rightarrow> 's \<Rightarrow> (unit, 's) outcome"
  swe_calc_ut :: "jdouble \<Rightarrow> jint \<Rightarrow> jint \<Rightarrow> 's \<Rightarrow> (jint \<times> double_array \<times> string, 's) outcome"
  swe_get_ayanamsa_ut :: "jdouble \<Rightarrow> 's \<Rightarrow> (jdouble, 's) outcome"
  swe_houses :: "jdouble \<Rightarrow> jdouble \<Rightarrow> jdouble \<Rightarrow> jint \<Rightarrow> 's \<Rightarrow> (jint \<times> double_array \<times> double_array, 's) outcome"
  swe_close :: "'s \<Rightarrow> (unit, 's) outcome"
  SEFLG_SIDEREAL :: jint
  SEFLG_SPEED :: jint
  ephe_path_of :: "'s \<Rightarrow> string"
  sid_mode_of :: "'s \<Rightarrow> jint"
  diagnostics_open_of :: "'s \<Rightarrow> bool"

text \<open>
  Modelled from the spec: what the absent library does to its process-wide data.
  The sidereal-mode setter comes back having stored the mode it was given and left the
  ephemeris path alone; the path setter comes back having stored the path it was given;
  \<open>swe_close\<close> comes back with the diagnostic handle suppressed and the ephemeris path
  as it was; the position calculation changes neither setting, however it ends. Nothing
  else is assumed of the library: its calculations may report any status, fill their
  arrays with anything, or raise.
\<close>

definition ephe_path_setter_stores :: "'s swe_lib \<Rightarrow> bool" where
  "ephe_path_setter_stores lib \<longleftrightarrow>
     (\<forall>p s. \<exists>s'. swe_set_ephe_path lib p s = Returns () s' \<and> ephe_path_of lib s' = p)"

definition close_suppresses_diagnostics :: "'s swe_lib \<Rightarrow> bool" where
  "close_suppresses_diagnostics lib \<longleftrightarrow>
     (\<forall>s. \<exists>s'. swe_close lib s = Returns () s'
        \<and> \<not> diagnostics_open_of lib s' \<and> ephe_path_of lib s' = ephe_path_of lib s)"

definition sid_mode_setter_stores :: "'s swe_lib \<Rightarrow> bool" where
  "sid_mode_setter_stores lib \<longleftrightarrow>
     (\<forall>m t0 a s. \<exists>s'. swe_set_sid_mode lib m t0 a s = Returns () s'
        \<and> sid_mode_of lib s' = m \<and> ephe_path_of lib s' = ephe_path_of lib s)"

definition calc_keeps_settings :: "'s swe_lib \<Rightarrow> bool" where
  "calc_keeps_settings lib \<longleftrightarrow>
     (\<forall>jd ipl iflag s.
        sid_mode_of lib (state_of (swe_calc_ut lib jd ipl iflag s)) = sid_mode_of lib s
      \<and> ephe_path_of lib (state_of (swe_calc_ut lib jd ipl iflag s)) = ephe_path_of lib s)"

subsection \<open>Java objects and the JNI calls that build them\<close>

text \<open>
  The Java objects the wrapper can hold a reference to. \<open>JDouble\<close> is a
  \<open>java.lang.Double\<close>, the boxed form a \<open>jdouble\<close> needs before it can stand where
  an object reference is expected. A \<open>HashMap\<close> is kept as an association list.
\<close>

datatype jobject =
    JString string
  | JDouble jdouble
  | JHashMap "(jobject \<times> jobject) list"
  | JArrayList "jobject list"

text \<open>
  The C values that follow the method id in a \<open>Call...Method\<close> call. The wrapper passes
  \<open>jstring\<close> references and raw \<open>double\<close>s.
\<close>

datatype jarg =
    ArgObject jobject
  | ArgDouble jdouble

record jmethodID =
  declaring_class :: string
  method_name :: string
  descriptor :: string

definition FindClass :: "string \<Rightarrow> string" where
  "FindClass name = name"

definition GetMethodID :: "string \<Rightarrow> string \<Rightarrow> string \<Rightarrow> jmethodID" where
  "GetMethodID clazz name sig = \<lparr>declaring_class = clazz, method_name = name, descriptor = sig\<rparr>"

definition NewStringUTF :: "string \<Rightarrow> jobject" where
  "NewStringUTF bytes = JString bytes"

definition NewObject :: "string \<Rightarrow> jmethodID \<Rightarrow> jobject option" where
  "NewObject clazz ctor =
     (if ctor = GetMethodID clazz ''<init>'' ''()V'' then
        (if clazz = ''java/util/HashMap'' then Some (JHashMap [])
         else if clazz = ''java/util/ArrayList'' then Some (JArrayList [])
         else None)
      else None)"

text \<open>
  Invoking an instance method through JNI. JNI reads the arguments after the method id
  according to the method's descriptor: for a parameter \<open>Ljava/lang/Object;\<close> it reads an
  object reference. \<open>HashMap.put\<close> binds the key to the value, \<open>ArrayList.add\<close> appends.
  Arguments of another kind or number than the descriptor's are outside the JNI contract
  (\<open>None\<close>). The result is the receiver after the call; what the Java method returns is
  dropped, as the wrapper drops it.
\<close>

fun invoke_method :: "jobject \<Rightarrow> jmethodID \<Rightarrow> jarg list \<Rightarrow> jobject option" where
  "invoke_method (JHashMap m) mid [ArgObject k, ArgObject v] =
     (if mid = GetMethodID ''java/util/HashMap'' ''put''
                 ''(Ljava/lang/Object;Ljava/lang/Object;)Ljava/lang/Object;''
      then Some (JHashMap (AList.update k v m)) else None)"
| "invoke_method (JArrayList xs) mid [ArgObject v] =
     (if mid = GetMethodID ''java/util/ArrayList'' ''add'' ''(Ljava/lang/Object;)Z''
      then Some (JArrayList (xs @ [v])) else None)"
| "invoke_method obj mid args = None"

definition CallObjectMethod :: "jobject \<Rightarrow> jmethodID \<Rightarrow> jarg list \<Rightarrow> jobject option" where
  "CallObjectMethod obj mid args = invoke_method obj mid args"

definition CallBooleanMethod :: "jobject \<Rightarrow> jmethodID \<Rightarrow> jarg list \<Rightarrow> jobject option" where
  "CallBooleanMethod obj mid args = invoke_method obj mid args"

text \<open>A JNI call inside a wrapper: go on with its result, or stop where the contract broke.\<close>

definition jni :: "'a option \<Rightarrow> 's \<Rightarrow> ('a \<Rightarrow> ('b, 's) outcome) \<Rightarrow> ('b, 's) outcome" where
  "jni r s k = (case r of None \<Rightarrow> JniUndefined s | Some v \<Rightarrow> k v)"

text \<open>
  \<open>GetStringUTFChars\<close> is the one JNI call whose failure the wrapper checks for: it
  yields the bytes of the Java string, or \<open>nullptr\<close> (\<open>None\<close>) when it cannot.
\<close>

record JNIEnv =
  GetStringUTFChars :: "string \<Rightarrow> string option"

subsection \<open>setEphemerisPath (lines 73-93)\<close>

definition setEphemerisPath :: "JNIEnv \<Rightarrow> 's swe_lib \<Rightarrow> string \<Rightarrow> 's \<Rightarrow> (jboolean, 's) outcome" where
  "setEphemerisPath env lib path s =
     try_catch
       (case GetStringUTFChars env path of
          None \<Rightarrow> Returns JNI_FALSE s
        | Some pathStr \<Rightarrow>
            then_do (swe_set_ephe_path lib pathStr s) (\<lambda>_ s1. Returns JNI_TRUE s1))
       (\<lambda>s'. Returns JNI_FALSE s')"

subsection \<open>getPlanetPositionInternal (lines 96-162)\<close>

text \<open>The four \<open>put\<close> calls of lines 137-155, each given a key string and a raw array slot.\<close>

definition position_map :: "double_array \<Rightarrow> 's \<Rightarrow> (jobject option, 's) outcome" where
  "position_map xx s =
     (let mapClass = FindClass ''java/util/HashMap'';
          mapInit = GetMethodID mapClass ''<init>'' ''()V'';
          mapPut = GetMethodID mapClass ''put''
                     ''(Ljava/lang/Object;Ljava/lang/Object;)Ljava/lang/Object;''
      in jni (NewObject mapClass mapInit) s (\<lambda>m0.
         jni (CallObjectMethod m0 mapPut [ArgObject (NewStringUTF ''longitude''), ArgDouble (xx 0)]) s (\<lambda>m1.
         jni (CallObjectMethod m1 mapPut [ArgObject (NewStringUTF ''latitude''), ArgDouble (xx 1)]) s (\<lambda>m2.
         jni (CallObjectMethod m2 mapPut [ArgObject (NewStringUTF ''distance''), ArgDouble (xx 2)]) s (\<lambda>m3.
         jni (CallObjectMethod m3 mapPut [ArgObject (NewStringUTF ''speed''), ArgDouble (xx 3)]) s (\<lambda>resultMap.
         Returns (Some resultMap) s))))))"

text \<open>Lines 112-157: the position calculation and what follows it.\<close>

definition calc_position :: "'s swe_lib \<Rightarrow> jdouble \<Rightarrow> jint \<Rightarrow> 's \<Rightarrow> (jobject option, 's) outcome" where
  "calc_position lib julianDay planet s1 =
     then_do (swe_calc_ut lib julianDay planet (SEFLG_SIDEREAL lib OR SEFLG_SPEED lib) s1)
       (\<lambda>(result, xx, serr) s2.
          if result <s 0 then Returns None s2 else position_map xx s2)"

definition getPlanetPositionInternal ::
  "'s swe_lib \<Rightarrow> jdouble \<Rightarrow> jint \<Rightarrow> jdouble \<Rightarrow> jdouble \<Rightarrow> jint \<Rightarrow> 's \<Rightarrow> (jobject option, 's) outcome" where
  "getPlanetPositionInternal lib julianDay planet latitude longitude ayanamsha s =
     try_catch
       (then_do (if 0 \<le>s ayanamsha then swe_set_sid_mode lib ayanamsha 0 0 s else Returns () s)
          (\<lambda>_ s1. calc_position lib julianDay planet s1))
       (\<lambda>s'. Returns None s')"

subsection \<open>getAyanamshaInternal (lines 165-178)\<close>

definition getAyanamshaInternal :: "'s swe_lib \<Rightarrow> jdouble \<Rightarrow> jint \<Rightarrow> 's \<Rightarrow> (jdouble, 's) outcome" where
  "getAyanamshaInternal lib julianDay ayanamshaType s =
     try_catch
       (then_do (swe_get_ayanamsa_ut lib julianDay s) (\<lambda>ayanamshaValue s1. Returns ayanamshaValue s1))
       (\<lambda>s'. Returns 0 s')"

subsection \<open>getHouseCuspsInternal (lines 181-229)\<close>

text \<open>The loop of lines 220-222: \<open>for (int i = 0; i < 12; i++) add(cusps[i + 1])\<close>.\<close>

function add_cusps :: "double_array \<Rightarrow> jmethodID \<Rightarrow> nat \<Rightarrow> jobject \<Rightarrow> jobject option" where
  "add_cusps cusps arrayListAdd i resultList =
     (if i < 12 then
        (case CallBooleanMethod resultList arrayListAdd [ArgDouble (cusps (i + 1))] of
           None \<Rightarrow> None
         | Some resultList' \<Rightarrow> add_cusps cusps arrayListAdd (i + 1) resultList')
      else Some resultList)"
  by pat_completeness auto
termination
  by (relation "measure (\<lambda>(cusps, arrayListAdd, i, resultList). 12 - i)") auto

definition cusp_list :: "double_array \<Rightarrow> 's \<Rightarrow> (jobject option, 's) outcome" where
  "cusp_list cusps s =
     (let arrayListClass = FindClass ''java/util/ArrayList'';
          arrayListInit = GetMethodID arrayListClass ''<init>'' ''()V'';
          arrayListAdd = GetMethodID arrayListClass ''add'' ''(Ljava/lang/Object;)Z''
      in jni (NewObject arrayListClass arrayListInit) s (\<lambda>l0.
         jni (add_cusps cusps arrayListAdd 0 l0) s (\<lambda>resultList.
         Returns (Some resultList) s)))"

definition getHouseCuspsInternal ::
  "'s swe_lib \<Rightarrow> jdouble \<Rightarrow> jdouble \<Rightarrow> jdouble \<Rightarrow> jint \<Rightarrow> 's \<Rightarrow> (jobject option, 's) outcome" where
  "getHouseCuspsInternal lib julianDay latitude longitude houseSystem s =
     try_catch
       (then_do (swe_houses lib julianDay latitude longitude houseSystem s)
          (\<lambda>(result, cusps, ascmc) s1.
             if result <s 0 then Returns None s1 else cusp_list cusps s1))
       (\<lambda>s'. Returns None s')"

subsection \<open>getAscendantDataInternal (lines 232-300)\<close>

definition ascendant_map :: "double_array \<Rightarrow> 's \<Rightarrow> (jobject option, 's) outcome" where
  "ascendant_map ascmc s =
     (let mapClass = FindClass ''java/util/HashMap'';
          mapInit = GetMethodID mapClass ''<init>'' ''()V'';
          mapPut = GetMethodID mapClass ''put''
                     ''(Ljava/lang/Object;Ljava/lang/Object;)Ljava/lang/Object;''
      in jni (NewObject mapClass mapInit) s (\<lambda>m0.
         jni (CallObjectMethod m0 mapPut [ArgObject (NewStringUTF ''ascendant''), ArgDouble (ascmc 0)]) s (\<lambda>m1.
         jni (CallObjectMethod m1 mapPut [ArgObject (NewStringUTF ''midheaven''), ArgDouble (ascmc 1)]) s (\<lambda>m2.
         jni (CallObjectMethod m2 mapPut [ArgObject (NewStringUTF ''armc''), ArgDouble (ascmc 2)]) s (\<lambda>m3.
         jni (CallObjectMethod m3 mapPut [ArgObject (NewStringUTF ''vertex''), ArgDouble (ascmc 3)]) s (\<lambda>m4.
         jni (CallObjectMethod m4 mapPut [ArgObject (NewStringUTF ''equatorialAscendant''), ArgDouble (ascmc 4)]) s (\<lambda>resultMap.
         Returns (Some resultMap) s)))))))"

definition getAscendantDataInternal ::
  "'s swe_lib \<Rightarrow> jdouble \<Rightarrow> jdouble \<Rightarrow> jdouble \<Rightarrow> jint \<Rightarrow> 's \<Rightarrow> (jobject option, 's) outcome" where
  "getAscendantDataInternal lib julianDay latitude longitude houseSystem s =
     try_catch
       (then_do (swe_houses lib julianDay latitude longitude houseSystem s)
          (\<lambda>(result, cusps, ascmc) s1.
             if result <s 0 then Returns None s1 else ascendant_map ascmc s1))
       (\<lambda>s'. Returns None s')"

subsection \<open>JNI_OnLoad (lines 303-311)\<close>

definition default_ephe_path :: string where
  "default_ephe_path = ''/data/data/com.supernova.skvk_application/files/ephemeris''"

text \<open>No handler here: the two library calls are made outside any \<open>try\<close> block.\<close>

definition JNI_OnLoad :: "'s swe_lib \<Rightarrow> 'vm \<Rightarrow> 'r \<Rightarrow> 's \<Rightarrow> (jint, 's) outcome" where
  "JNI_OnLoad lib vm reserved s =
     then_do (swe_set_ephe_path lib default_ephe_path s) (\<lambda>_ s1.
     then_do (swe_close lib s1) (\<lambda>_ s2.
     Returns JNI_VERSION_1_6 s2))"

subsection \<open>A small library and environment for closed instances\<close>

text \<open>
  A stand-in library with two settings, a diagnostic handle and nothing else: the
  setters store, \<open>swe_close\<close> shuts the handle, a body with a negative id fails the
  position calculation, house system 0 fails the house calculation. \<open>raising_lib\<close> is
  the same library with an ayanamsha entry point left by a \<open>std::exception\<close>,
  \<open>throwing_lib\<close> the same with one left by an exception of another type, \<open>zero_lib\<close>
  the same with an offset of exactly \<open>0.0\<close>.
\<close>

record demo_state =
  demo_path :: string
  demo_mode :: jint
  demo_diag :: bool

definition demo_start :: demo_state where
  "demo_start = \<lparr>demo_path = ''/data/ephe'', demo_mode = 0, demo_diag = True\<rparr>"

definition demo_lib :: "demo_state swe_lib" where
  "demo_lib = \<lparr>
     swe_set_ephe_path = (\<lambda>p s. Returns () (s\<lparr>demo_path := p\<rparr>)),
     swe_set_sid_mode = (\<lambda>m t0 a s. Returns () (s\<lparr>demo_mode := m\<rparr>)),
     swe_calc_ut = (\<lambda>jd ipl iflag s.
        Returns (if ipl <s 0 then - 1 else iflag, (\<lambda>i. jd + of_nat i), []) s),
     swe_get_ayanamsa_ut = (\<lambda>jd s. Returns 0x4038000000000000 s),
     swe_houses = (\<lambda>jd lat lon hsys s.
        Returns (if hsys = 0 then - 1 else 0, (\<lambda>i. jd + of_nat i), (\<lambda>i. lat + of_nat i)) s),
     swe_close = (\<lambda>s. Returns () (s\<lparr>demo_diag := False\<rparr>)),
     SEFLG_SIDEREAL = 65536,
     SEFLG_SPEED = 256,
     ephe_path_of = demo_path,
     sid_mode_of = demo_mode,
     diagnostics_open_of = demo_diag\<rparr>"




definition demo_env :: JNIEnv where
  "demo_env = \<lparr>GetStringUTFChars = (\<lambda>str. Some str)\<rparr>"

definition unreadable_env :: JNIEnv where
  "unreadable_env = \<lparr>GetStringUTFChars = (\<lambda>str. None)\<rparr>"

section \<open>Basic facts\<close>

declare add_cusps.simps [simp del]

lemma try_catch_simps:
  "try_catch (Returns v s) h = Returns v s"
  "try_catch (Raises s) h = h s"
  "try_catch (RaisesOther s) h = RaisesOther s"
  "try_catch (JniUndefined s) h = JniUndefined s"
  by (simp_all add: try_catch_def)

lemma then_do_simps:
  "then_do (Returns v s) k = k v s"
  "then_do (Raises s) k = Raises s"
  "then_do (RaisesOther s) k = RaisesOther s"
  "then_do (JniUndefined s) k = JniUndefined s"
  by (simp_all add: then_do_def)

lemma state_of_try_catch_None:
  "state_of (try_catch r (\<lambda>s'. Returns v s')) = state_of r"
  by (cases r) (simp_all add: try_catch_simps)

text \<open>The stand-in library keeps the contract assumed of the real one.\<close>

lemma demo_lib_contract:
  "sid_mode_setter_stores demo_lib" "calc_keeps_settings demo_lib"
  by (simp_all add: sid_mode_setter_stores_def calc_keeps_settings_def demo_lib_def)

lemma demo_lib_startup_contract:
  "ephe_path_setter_stores demo_lib" "close_suppresses_diagnostics demo_lib"
  by (simp_all add: ephe_path_setter_stores_def close_suppresses_diagnostics_def demo_lib_def)

section \<open>What reaches the Java collections\<close>

text \<open>
  \<open>HashMap.put\<close> binds a key to a boxed double. Every \<open>put\<close> and \<open>add\<close> of the wrapper
  passes the array slot itself, a C \<open>double\<close>, where the descriptor it looked the method
  up with asks for an object reference; none of these calls is covered by JNI.
\<close>

lemma put_boxed_binds:
  "CallObjectMethod (JHashMap [])
     (GetMethodID (FindClass ''java/util/HashMap'') ''put''
        ''(Ljava/lang/Object;Ljava/lang/Object;)Ljava/lang/Object;'')
     [ArgObject (NewStringUTF ''longitude''), ArgObject (JDouble d)]
   = Some (JHashMap [(JString ''longitude'', JDouble d)])"
  by (simp add: CallObjectMethod_def FindClass_def NewStringUTF_def)

lemma put_raw_double_undefined:
  "CallObjectMethod obj mid [ArgObject k, ArgDouble d] = None"
  by (cases obj) (simp_all add: CallObjectMethod_def)

lemma add_raw_double_undefined:
  "CallBooleanMethod obj mid [ArgDouble d] = None"
  by (cases obj) (simp_all add: CallBooleanMethod_def)

lemma position_map_undefined: "position_map xx s = JniUndefined s"
  by (simp add: position_map_def jni_def NewObject_def CallObjectMethod_def FindClass_def)

lemma ascendant_map_undefined: "ascendant_map ascmc s = JniUndefined s"
  by (simp add: ascendant_map_def jni_def NewObject_def put_raw_double_undefined FindClass_def)

lemma add_cusps_first: "add_cusps cusps arrayListAdd 0 resultList = None"
  by (subst add_cusps.simps) (simp add: add_raw_double_undefined)

lemma cusp_list_undefined: "cusp_list cusps s = JniUndefined s"
  by (simp add: cusp_list_def jni_def NewObject_def FindClass_def add_cusps_first Let_def)

lemma state_of_calc_position:
  "state_of (calc_position lib julianDay planet s1)
     = state_of (swe_calc_ut lib julianDay planet (SEFLG_SIDEREAL lib OR SEFLG_SPEED lib) s1)"
  by (cases "swe_calc_ut lib julianDay planet (SEFLG_SIDEREAL lib OR SEFLG_SPEED lib) s1")
     (auto simp: calc_position_def then_do_simps position_map_undefined)

text \<open>
  Both house wrappers make the same library call, \<open>swe_houses\<close> with the four arguments
  unchanged, from the state they are given; one returns an absent result exactly when
  the other does.
\<close>

lemma house_calls_fail_together:
  "getAscendantDataInternal lib julianDay latitude longitude houseSystem s = Returns None s'
     \<longleftrightarrow> getHouseCuspsInternal lib julianDay latitude longitude houseSystem s = Returns None s'"
  by (cases "swe_houses lib julianDay latitude longitude houseSystem s")
     (auto simp: getAscendantDataInternal_def getHouseCuspsInternal_def then_do_simps
        try_catch_simps ascendant_map_undefined cusp_list_undefined split: if_splits)

section \<open>getPlanetPositionInternal: the result\<close>

text \<open>
  Claim C1 says: when the position calculation reports a non-negative status the wrapper
  returns a map with exactly the keys longitude, latitude, distance and speed, bound to
  slots 0 to 3 of the result array, and when it reports a negative status the wrapper
  returns an absent result. The second half holds. On a non-negative status the wrapper
  reaches the first \<open>put\<close> of line 139, which hands JNI the raw \<open>double\<close> \<open>xx[0]\<close> as the
  value object; the call ends there, outside the JNI contract, and no such map is built.
\<close>

theorem getPlanetPosition_passes_raw_doubles:
  assumes "(if 0 \<le>s ayanamsha then swe_set_sid_mode lib ayanamsha 0 0 s else Returns () s)
             = Returns () s1"
    and "swe_calc_ut lib julianDay planet (SEFLG_SIDEREAL lib OR SEFLG_SPEED lib) s1
           = Returns (result, xx, serr) s2"
  shows "(result <s 0 \<longrightarrow>
            getPlanetPositionInternal lib julianDay planet latitude longitude ayanamsha s
              = Returns None s2)
       \<and> (\<not> result <s 0 \<longrightarrow>
            getPlanetPositionInternal lib julianDay planet latitude longitude ayanamsha s
              = JniUndefined s2)"
  using assms
  by (simp add: getPlanetPositionInternal_def calc_position_def then_do_simps try_catch_simps
        position_map_undefined)

text \<open>
  C1 at the stand-in library, Julian day 2451545.0, sidereal mode 1: body 0 (status
  non-negative) and body -1 (status negative).
\<close>

theorem getPlanetPosition_passes_raw_doubles_witness:
  "getPlanetPositionInternal demo_lib 0x4142b42c80000000 0 0 0 1 demo_start
     = JniUndefined (demo_start\<lparr>demo_mode := 1\<rparr>)
   \<and> getPlanetPositionInternal demo_lib 0x4142b42c80000000 (- 1) 0 0 1 demo_start
     = Returns None (demo_start\<lparr>demo_mode := 1\<rparr>)"
proof -
  have set: "(if (0::jint) \<le>s 1 then swe_set_sid_mode demo_lib 1 0 0 demo_start else Returns () demo_start)
      = Returns () (demo_start\<lparr>demo_mode := 1\<rparr>)"
    by (simp add: demo_lib_def word_sle_eq)
  have ok: "swe_calc_ut demo_lib 0x4142b42c80000000 0 (SEFLG_SIDEREAL demo_lib OR SEFLG_SPEED demo_lib)
                (demo_start\<lparr>demo_mode := 1\<rparr>)
      = Returns (65792, (\<lambda>i. 0x4142b42c80000000 + of_nat i), []) (demo_start\<lparr>demo_mode := 1\<rparr>)"
    by (simp add: demo_lib_def word_sless_alt)
  have bad: "swe_calc_ut demo_lib 0x4142b42c80000000 (- 1) (SEFLG_SIDEREAL demo_lib OR SEFLG_SPEED demo_lib)
                (demo_start\<lparr>demo_mode := 1\<rparr>)
      = Returns (- 1, (\<lambda>i. 0x4142b42c80000000 + of_nat i), []) (demo_start\<lparr>demo_mode := 1\<rparr>)"
    by (simp add: demo_lib_def word_sless_alt)
  have pos: "\<not> (65792 :: jint) <s 0"
    by (simp add: word_sless_alt)
  have neg: "(- 1 :: jint) <s 0"
    by (simp add: word_sless_alt)
  from getPlanetPosition_passes_raw_doubles [OF set ok, of 0 0] pos
    getPlanetPosition_passes_raw_doubles [OF set bad, of 0 0] neg
  show ?thesis by blast
qed

section \<open>getHouseCuspsInternal: the result\<close>

text \<open>
  Claim C2 says: the result is either a sequence of exactly twelve values, element \<open>i\<close>
  being slot \<open>i\<close> of the library's cusp array, or absent. On a negative status the
  result is absent. On any other status the loop's first \<open>add\<close> (line 221) hands JNI the
  raw \<open>double\<close> \<open>cusps[1]\<close> as the element object; the call ends there, with neither a
  twelve-element sequence nor an absent result.
\<close>

theorem getHouseCusps_passes_raw_doubles:
  assumes "swe_houses lib julianDay latitude longitude houseSystem s
             = Returns (result, cusps, ascmc) s1"
  shows "(result <s 0 \<longrightarrow>
            getHouseCuspsInternal lib julianDay latitude longitude houseSystem s = Returns None s1)
       \<and> (\<not> result <s 0 \<longrightarrow>
            getHouseCuspsInternal lib julianDay latitude longitude houseSystem s = JniUndefined s1)"
  using assms
  by (simp add: getHouseCuspsInternal_def then_do_simps try_catch_simps cusp_list_undefined)

text \<open>C2 at the stand-in library: house system 80 (status 0) and house system 0 (status -1).\<close>

theorem getHouseCusps_passes_raw_doubles_witness:
  "getHouseCuspsInternal demo_lib 0x4142b42c80000000 0 0 80 demo_start = JniUndefined demo_start
   \<and> getHouseCuspsInternal demo_lib 0x4142b42c80000000 0 0 0 demo_start = Returns None demo_start"
proof -
  have ok: "swe_houses demo_lib 0x4142b42c80000000 0 0 80 demo_start
      = Returns (0, (\<lambda>i. 0x4142b42c80000000 + of_nat i), (\<lambda>i. 0 + of_nat i)) demo_start"
    by (simp add: demo_lib_def)
  have bad: "swe_houses demo_lib 0x4142b42c80000000 0 0 0 demo_start
      = Returns (- 1, (\<lambda>i. 0x4142b42c80000000 + of_nat i), (\<lambda>i. 0 + of_nat i)) demo_start"
    by (simp add: demo_lib_def)
  have pos: "\<not> (0 :: jint) <s 0"
    by (simp add: word_sless_alt)
  have neg: "(- 1 :: jint) <s 0"
    by (simp add: word_sless_alt)
  from getHouseCusps_passes_raw_doubles [OF ok] pos getHouseCusps_passes_raw_doubles [OF bad] neg
  show ?thesis by blast
qed

section \<open>getAscendantDataInternal next to getHouseCuspsInternal\<close>

text \<open>
  Claim C7 says: with the same arguments and library state the two wrappers run the same
  house calculation, the five named values of one are slots 0 to 4 of its auxiliary
  array, the cusps of the other come from the same run, and they succeed or fail
  together. Whenever that one calculation reports a non-negative status, neither
  wrapper delivers its values: each ends at its first \<open>put\<close> or \<open>add\<close> (lines 272, 221),
  which is given a raw \<open>double\<close>.
\<close>

theorem house_calls_pass_raw_doubles:
  assumes "swe_houses lib julianDay latitude longitude houseSystem s
             = Returns (result, cusps, ascmc) s1"
    and "\<not> result <s 0"
  shows "getAscendantDataInternal lib julianDay latitude longitude houseSystem s = JniUndefined s1
       \<and> getHouseCuspsInternal lib julianDay latitude longitude houseSystem s = JniUndefined s1"
  using assms
  by (simp add: getAscendantDataInternal_def getHouseCuspsInternal_def then_do_simps
        try_catch_simps ascendant_map_undefined cusp_list_undefined)

text \<open>C7 at the stand-in library, house system 80.\<close>

theorem house_calls_pass_raw_doubles_witness:
  "getAscendantDataInternal demo_lib 0x4142b42c80000000 0 0 80 demo_start = JniUndefined demo_start
   \<and> getHouseCuspsInternal demo_lib 0x4142b42c80000000 0 0 80 demo_start = JniUndefined demo_start"
proof -
  have ok: "swe_houses demo_lib 0x4142b42c80000000 0 0 80 demo_start
      = Returns (0, (\<lambda>i. 0x4142b42c80000000 + of_nat i), (\<lambda>i. 0 + of_nat i)) demo_start"
    by (simp add: demo_lib_def)
  have pos: "\<not> (0 :: jint) <s 0"
    by (simp add: word_sless_alt)
  from house_calls_pass_raw_doubles [OF ok pos] show ?thesis .
qed

section \<open>The unused parameters\<close>

text \<open>
  Claim C3. Two calls of \<open>getAyanamshaInternal\<close> with the same Julian day, made from the
  same library state, end the same way (same value, same state) whatever the two
  \<open>ayanamshaType\<close> arguments are.
\<close>

theorem getAyanamsha_ignores_type:
  "getAyanamshaInternal lib julianDay ayanamshaType1 s
     = getAyanamshaInternal lib julianDay ayanamshaType2 s"
  by (simp add: getAyanamshaInternal_def)

text \<open>
  Claim C9. Two calls of \<open>getPlanetPositionInternal\<close> that differ only in \<open>latitude\<close> and
  \<open>longitude\<close>, made from the same library state, end the same way: same result,
  same state.
\<close>

theorem getPlanetPosition_ignores_place:
  "getPlanetPositionInternal lib julianDay planet latitude1 longitude1 ayanamsha s
     = getPlanetPositionInternal lib julianDay planet latitude2 longitude2 ayanamsha s"
  by (simp add: getPlanetPositionInternal_def)

section \<open>Faults in the ayanamsha call\<close>




section \<open>setEphemerisPath\<close>

text \<open>
  Claim C5. \<open>setEphemerisPath\<close> returns false when the Java string cannot be read, and
  true for every string that can be read, whatever directory it names, once the
  library's path setter has come back: the wrapper itself never looks at the file
  system, and hands the library the very bytes it read. True and false are different
  values.
\<close>

theorem setEphemerisPath_true_unless_unreadable:
  "(GetStringUTFChars env path = None \<longrightarrow>
      setEphemerisPath env lib path s = Returns JNI_FALSE s)
   \<and> (\<forall>pathStr s1. GetStringUTFChars env path = Some pathStr
          \<and> swe_set_ephe_path lib pathStr s = Returns () s1 \<longrightarrow>
        setEphemerisPath env lib path s = Returns JNI_TRUE s1)
   \<and> JNI_TRUE \<noteq> JNI_FALSE"
proof (intro conjI allI impI)
  assume "GetStringUTFChars env path = None"
  then show "setEphemerisPath env lib path s = Returns JNI_FALSE s"
    by (simp add: setEphemerisPath_def try_catch_simps)
next
  fix pathStr s1
  assume "GetStringUTFChars env path = Some pathStr
            \<and> swe_set_ephe_path lib pathStr s = Returns () s1"
  then show "setEphemerisPath env lib path s = Returns JNI_TRUE s1"
    by (simp add: setEphemerisPath_def then_do_simps try_catch_simps)
next
  show "JNI_TRUE \<noteq> JNI_FALSE"
    by (simp add: JNI_TRUE_def JNI_FALSE_def)
qed

text \<open>C5 for a path that names no directory: once unreadable, once readable.\<close>

theorem setEphemerisPath_true_unless_unreadable_witness:
  "setEphemerisPath unreadable_env demo_lib ''/no/such/dir'' demo_start = Returns JNI_FALSE demo_start
   \<and> setEphemerisPath demo_env demo_lib ''/no/such/dir'' demo_start
       = Returns JNI_TRUE (demo_start\<lparr>demo_path := ''/no/such/dir''\<rparr>)"
proof -
  have unreadable: "GetStringUTFChars unreadable_env ''/no/such/dir'' = None"
    by (simp add: unreadable_env_def)
  have readable: "GetStringUTFChars demo_env ''/no/such/dir'' = Some ''/no/such/dir''"
    by (simp add: demo_env_def)
  have store: "swe_set_ephe_path demo_lib ''/no/such/dir'' demo_start
                 = Returns () (demo_start\<lparr>demo_path := ''/no/such/dir''\<rparr>)"
    by (simp add: demo_lib_def)
  from setEphemerisPath_true_unless_unreadable [of unreadable_env "''/no/such/dir''" demo_lib demo_start]
    unreadable
  have first: "setEphemerisPath unreadable_env demo_lib ''/no/such/dir'' demo_start
                 = Returns JNI_FALSE demo_start"
    by blast
  from setEphemerisPath_true_unless_unreadable [of demo_env "''/no/such/dir''" demo_lib demo_start]
    readable store
  have second: "setEphemerisPath demo_env demo_lib ''/no/such/dir'' demo_start
       = Returns JNI_TRUE (demo_start\<lparr>demo_path := ''/no/such/dir''\<rparr>)"
    by blast
  from first second show ?thesis by blast
qed

section \<open>getPlanetPositionInternal: the process-wide settings\<close>

text \<open>
  Which library calls the wrapper makes, and from which state: the state a call of
  \<open>getPlanetPositionInternal\<close> ends in is the one the position calculation ends in,
  started from the state the sidereal-mode setter left when \<open>ayanamsha\<close> is
  non-negative, and from the caller's state otherwise. No other library call is made.
\<close>

lemma getPlanetPosition_ends_where_calc_ends:
  "(if 0 \<le>s ayanamsha then swe_set_sid_mode lib ayanamsha 0 0 s else Returns () s) = Returns () s1
   \<Longrightarrow> state_of (getPlanetPositionInternal lib julianDay planet latitude longitude ayanamsha s)
       = state_of (swe_calc_ut lib julianDay planet (SEFLG_SIDEREAL lib OR SEFLG_SPEED lib) s1)"
  by (simp add: getPlanetPositionInternal_def then_do_simps state_of_try_catch_None
        state_of_calc_position)

text \<open>
  Claim C6. If \<open>ayanamsha\<close> is non-negative, the sidereal-mode setter is called with it
  first and the position calculation starts from the state the setter left; if it is
  negative the calculation starts from the caller's state. With a library whose setter
  stores the mode and whose position calculation leaves the two settings alone, the
  mode is therefore \<open>ayanamsha\<close> when the calculation starts and still \<open>ayanamsha\<close> in
  the state the call ends in; for a negative \<open>ayanamsha\<close> the mode at the end is the mode
  at the start; and in both cases the ephemeris path at the end is the one at the start.
\<close>

theorem getPlanetPosition_settings_frame:
  "(0 \<le>s ayanamsha \<longrightarrow>
      (\<forall>s1. swe_set_sid_mode lib ayanamsha 0 0 s = Returns () s1 \<longrightarrow>
         state_of (getPlanetPositionInternal lib julianDay planet latitude longitude ayanamsha s)
           = state_of (swe_calc_ut lib julianDay planet (SEFLG_SIDEREAL lib OR SEFLG_SPEED lib) s1)))
   \<and> (ayanamsha <s 0 \<longrightarrow>
         state_of (getPlanetPositionInternal lib julianDay planet latitude longitude ayanamsha s)
           = state_of (swe_calc_ut lib julianDay planet (SEFLG_SIDEREAL lib OR SEFLG_SPEED lib) s))
   \<and> (sid_mode_setter_stores lib \<and> calc_keeps_settings lib \<longrightarrow>
         (0 \<le>s ayanamsha \<longrightarrow>
            (\<exists>s1. swe_set_sid_mode lib ayanamsha 0 0 s = Returns () s1
                 \<and> sid_mode_of lib s1 = ayanamsha)
            \<and> sid_mode_of lib (state_of (getPlanetPositionInternal lib julianDay planet latitude longitude ayanamsha s))
                = ayanamsha)
       \<and> (ayanamsha <s 0 \<longrightarrow>
            sid_mode_of lib (state_of (getPlanetPositionInternal lib julianDay planet latitude longitude ayanamsha s))
              = sid_mode_of lib s)
       \<and> ephe_path_of lib (state_of (getPlanetPositionInternal lib julianDay planet latitude longitude ayanamsha s))
           = ephe_path_of lib s)"
proof (intro conjI impI allI)
  fix s1
  assume "0 \<le>s ayanamsha" and "swe_set_sid_mode lib ayanamsha 0 0 s = Returns () s1"
  then show "state_of (getPlanetPositionInternal lib julianDay planet latitude longitude ayanamsha s)
      = state_of (swe_calc_ut lib julianDay planet (SEFLG_SIDEREAL lib OR SEFLG_SPEED lib) s1)"
    by (simp add: getPlanetPosition_ends_where_calc_ends)
next
  assume "ayanamsha <s 0"
  then have "\<not> 0 \<le>s ayanamsha"
    by (simp add: word_sle_eq word_sless_alt)
  then show "state_of (getPlanetPositionInternal lib julianDay planet latitude longitude ayanamsha s)
      = state_of (swe_calc_ut lib julianDay planet (SEFLG_SIDEREAL lib OR SEFLG_SPEED lib) s)"
    by (simp add: getPlanetPosition_ends_where_calc_ends)
next
  assume contract: "sid_mode_setter_stores lib \<and> calc_keeps_settings lib"
    and nonneg: "0 \<le>s ayanamsha"
  from contract obtain s1 where
    set: "swe_set_sid_mode lib ayanamsha 0 0 s = Returns () s1"
    and mode: "sid_mode_of lib s1 = ayanamsha"
    unfolding sid_mode_setter_stores_def by blast
  then show "\<exists>s1. swe_set_sid_mode lib ayanamsha 0 0 s = Returns () s1
                 \<and> sid_mode_of lib s1 = ayanamsha"
    by blast
  from contract have
    "sid_mode_of lib (state_of (swe_calc_ut lib julianDay planet (SEFLG_SIDEREAL lib OR SEFLG_SPEED lib) s1))
       = sid_mode_of lib s1"
    unfolding calc_keeps_settings_def by blast
  with nonneg set mode
  show "sid_mode_of lib (state_of (getPlanetPositionInternal lib julianDay planet latitude longitude ayanamsha s))
          = ayanamsha"
    by (simp add: getPlanetPosition_ends_where_calc_ends)
next
  assume contract: "sid_mode_setter_stores lib \<and> calc_keeps_settings lib"
    and neg: "ayanamsha <s 0"
  from neg have "\<not> 0 \<le>s ayanamsha"
    by (simp add: word_sle_eq word_sless_alt)
  moreover from contract have
    "sid_mode_of lib (state_of (swe_calc_ut lib julianDay planet (SEFLG_SIDEREAL lib OR SEFLG_SPEED lib) s))
       = sid_mode_of lib s"
    unfolding calc_keeps_settings_def by blast
  ultimately
  show "sid_mode_of lib (state_of (getPlanetPositionInternal lib julianDay planet latitude longitude ayanamsha s))
          = sid_mode_of lib s"
    by (simp add: getPlanetPosition_ends_where_calc_ends)
next
  assume contract: "sid_mode_setter_stores lib \<and> calc_keeps_settings lib"
  show "ephe_path_of lib (state_of (getPlanetPositionInternal lib julianDay planet latitude longitude ayanamsha s))
          = ephe_path_of lib s"
  proof (cases "0 \<le>s ayanamsha")
    case True
    from contract obtain s1 where
      set: "swe_set_sid_mode lib ayanamsha 0 0 s = Returns () s1"
      and path: "ephe_path_of lib s1 = ephe_path_of lib s"
      unfolding sid_mode_setter_stores_def by blast
    from contract have
      "ephe_path_of lib (state_of (swe_calc_ut lib julianDay planet (SEFLG_SIDEREAL lib OR SEFLG_SPEED lib) s1))
         = ephe_path_of lib s1"
      unfolding calc_keeps_settings_def by blast
    with True set path show ?thesis
      by (simp add: getPlanetPosition_ends_where_calc_ends)
  next
    case False
    from contract have
      "ephe_path_of lib (state_of (swe_calc_ut lib julianDay planet (SEFLG_SIDEREAL lib OR SEFLG_SPEED lib) s))
         = ephe_path_of lib s"
      unfolding calc_keeps_settings_def by blast
    with False show ?thesis
      by (simp add: getPlanetPosition_ends_where_calc_ends)
  qed
qed

text \<open>C6 at the stand-in library, which starts in mode 0: once with mode 1, once with -1.\<close>

theorem getPlanetPosition_settings_frame_witness:
  "sid_mode_of demo_lib (state_of (getPlanetPositionInternal demo_lib 0x4142b42c80000000 0 0 0 1 demo_start)) = 1
   \<and> sid_mode_of demo_lib (state_of (getPlanetPositionInternal demo_lib 0x4142b42c80000000 0 0 0 (- 1) demo_start))
       = sid_mode_of demo_lib demo_start
   \<and> ephe_path_of demo_lib (state_of (getPlanetPositionInternal demo_lib 0x4142b42c80000000 0 0 0 1 demo_start))
       = ephe_path_of demo_lib demo_start"
proof -
  have nonneg: "(0::jint) \<le>s 1"
    by (simp add: word_sle_eq)
  have neg: "(- 1 :: jint) <s 0"
    by (simp add: word_sless_alt)
  from getPlanetPosition_settings_frame [of 1 demo_lib demo_start "0x4142b42c80000000" 0 0 0]
    demo_lib_contract nonneg
  have a: "sid_mode_of demo_lib (state_of (getPlanetPositionInternal demo_lib 0x4142b42c80000000 0 0 0 1 demo_start)) = 1"
    and c: "ephe_path_of demo_lib (state_of (getPlanetPositionInternal demo_lib 0x4142b42c80000000 0 0 0 1 demo_start))
       = ephe_path_of demo_lib demo_start"
    by blast+
  from getPlanetPosition_settings_frame [of "- 1" demo_lib demo_start "0x4142b42c80000000" 0 0 0]
    demo_lib_contract neg
  have b: "sid_mode_of demo_lib (state_of (getPlanetPositionInternal demo_lib 0x4142b42c80000000 0 0 0 (- 1) demo_start))
       = sid_mode_of demo_lib demo_start"
    by blast
  from a b c show ?thesis by blast
qed

text \<open>
  Claim C10. A call with a non-negative \<open>ayanamsha\<close> whose position calculation reports a
  negative status returns an absent result in the state that calculation left, which
  descends from the state the setter left: the change made before the calculation is
  not undone. With a library whose setter stores the mode and whose calculation leaves
  it alone, the sidereal mode after the failed call is \<open>ayanamsha\<close>.
\<close>

theorem getPlanetPosition_failure_keeps_new_mode:
  assumes "0 \<le>s ayanamsha"
    and "swe_set_sid_mode lib ayanamsha 0 0 s = Returns () s1"
    and "swe_calc_ut lib julianDay planet (SEFLG_SIDEREAL lib OR SEFLG_SPEED lib) s1
           = Returns (result, xx, serr) s2"
    and "result <s 0"
  shows "getPlanetPositionInternal lib julianDay planet latitude longitude ayanamsha s = Returns None s2
       \<and> (sid_mode_setter_stores lib \<and> calc_keeps_settings lib \<longrightarrow> sid_mode_of lib s2 = ayanamsha)"
proof (intro conjI impI)
  show "getPlanetPositionInternal lib julianDay planet latitude longitude ayanamsha s = Returns None s2"
    using assms
    by (simp add: getPlanetPositionInternal_def calc_position_def then_do_simps try_catch_simps)
next
  assume contract: "sid_mode_setter_stores lib \<and> calc_keeps_settings lib"
  from contract assms(2) have "sid_mode_of lib s1 = ayanamsha"
    unfolding sid_mode_setter_stores_def by (metis outcome.inject(1))
  moreover from contract assms(3) have "sid_mode_of lib s2 = sid_mode_of lib s1"
    unfolding calc_keeps_settings_def by (metis state_of.simps(1))
  ultimately show "sid_mode_of lib s2 = ayanamsha" by simp
qed

text \<open>
  C10 at the stand-in library: body -1 makes the calculation fail, the mode goes from 0
  to 5 and stays there.
\<close>

theorem getPlanetPosition_failure_keeps_new_mode_witness:
  "getPlanetPositionInternal demo_lib 0x4142b42c80000000 (- 1) 0 0 5 demo_start
     = Returns None (demo_start\<lparr>demo_mode := 5\<rparr>)
   \<and> sid_mode_of demo_lib (demo_start\<lparr>demo_mode := 5\<rparr>) = 5
   \<and> sid_mode_of demo_lib demo_start = 0"
proof -
  have nonneg: "(0::jint) \<le>s 5"
    by (simp add: word_sle_eq)
  have set: "swe_set_sid_mode demo_lib 5 0 0 demo_start = Returns () (demo_start\<lparr>demo_mode := 5\<rparr>)"
    by (simp add: demo_lib_def)
  have calc: "swe_calc_ut demo_lib 0x4142b42c80000000 (- 1) (SEFLG_SIDEREAL demo_lib OR SEFLG_SPEED demo_lib)
                (demo_start\<lparr>demo_mode := 5\<rparr>)
              = Returns (- 1, (\<lambda>i. 0x4142b42c80000000 + of_nat i), []) (demo_start\<lparr>demo_mode := 5\<rparr>)"
    by (simp add: demo_lib_def word_sless_alt)
  have neg: "(- 1 :: jint) <s 0"
    by (simp add: word_sless_alt)
  have before: "sid_mode_of demo_lib demo_start = 0"
    by (simp add: demo_lib_def demo_start_def)
  from getPlanetPosition_failure_keeps_new_mode [OF nonneg set calc neg, of 0 0]
    demo_lib_contract before show ?thesis by simp
qed

section \<open>JNI_OnLoad\<close>

text \<open>
  Claim C8. With a library whose path setter stores the path it is given and whose
  \<open>swe_close\<close> suppresses the diagnostic handle and leaves the path alone:
  \<open>JNI_OnLoad\<close>, the hook run when the shared object is loaded, hands the path setter
  the fixed path of line 305, after which the library's path is that path; on the very
  state the setter left, with no other library call in between, it calls \<open>swe_close\<close>;
  it returns \<open>JNI_VERSION_1_6\<close> in a state whose ephemeris path is still the fixed path
  and whose diagnostic handle is suppressed. Nothing the caller passes (\<open>vm\<close>,
  \<open>reserved\<close>) changes any of this.
\<close>

theorem JNI_OnLoad_fixed_startup:
  assumes "ephe_path_setter_stores lib" and "close_suppresses_diagnostics lib"
  shows "(\<exists>s1 s2.
            swe_set_ephe_path lib ''/data/data/com.supernova.skvk_application/files/ephemeris'' s
              = Returns () s1
          \<and> ephe_path_of lib s1 = ''/data/data/com.supernova.skvk_application/files/ephemeris''
          \<and> swe_close lib s1 = Returns () s2
          \<and> JNI_OnLoad lib vm reserved s = Returns JNI_VERSION_1_6 s2
          \<and> ephe_path_of lib s2 = ''/data/data/com.supernova.skvk_application/files/ephemeris''
          \<and> \<not> diagnostics_open_of lib s2)
       \<and> JNI_OnLoad lib vm' reserved' s = JNI_OnLoad lib vm reserved s"
proof -
  from assms(1) obtain s1 where
    set: "swe_set_ephe_path lib ''/data/data/com.supernova.skvk_application/files/ephemeris'' s
            = Returns () s1"
    and path: "ephe_path_of lib s1 = ''/data/data/com.supernova.skvk_application/files/ephemeris''"
    unfolding ephe_path_setter_stores_def by blast
  from assms(2) obtain s2 where
    close: "swe_close lib s1 = Returns () s2"
    and quiet: "\<not> diagnostics_open_of lib s2"
    and kept: "ephe_path_of lib s2 = ephe_path_of lib s1"
    unfolding close_suppresses_diagnostics_def by blast
  have ret: "JNI_OnLoad lib vm reserved s = Returns JNI_VERSION_1_6 s2"
    using set close by (simp add: JNI_OnLoad_def default_ephe_path_def then_do_simps)
  have same: "JNI_OnLoad lib vm' reserved' s = JNI_OnLoad lib vm reserved s"
    by (simp add: JNI_OnLoad_def)
  from set path close ret kept quiet same show ?thesis
    by auto
qed

text \<open>
  C8 at the stand-in library, whose handle is open at the start, twice with different
  caller arguments.
\<close>

theorem JNI_OnLoad_fixed_startup_witness:
  "JNI_OnLoad demo_lib () () demo_start
     = Returns 0x00010006
         (demo_start\<lparr>demo_path := ''/data/data/com.supernova.skvk_application/files/ephemeris'',
                      demo_diag := False\<rparr>)
   \<and> diagnostics_open_of demo_lib demo_start
   \<and> JNI_OnLoad demo_lib True (5::nat) demo_start = JNI_OnLoad demo_lib () () demo_start"
proof -
  have set: "swe_set_ephe_path demo_lib ''/data/data/com.supernova.skvk_application/files/ephemeris'' demo_start
      = Returns () (demo_start\<lparr>demo_path := ''/data/data/com.supernova.skvk_application/files/ephemeris''\<rparr>)"
    by (simp add: demo_lib_def)
  have close: "swe_close demo_lib s = Returns () (s\<lparr>demo_diag := False\<rparr>)" for s
    by (simp add: demo_lib_def)
  have opened: "diagnostics_open_of demo_lib demo_start"
    by (simp add: demo_lib_def demo_start_def)
  from JNI_OnLoad_fixed_startup [OF demo_lib_startup_contract, of demo_start "()" "()" True "5::nat"]
  obtain s1 s2 where
    "swe_set_ephe_path demo_lib ''/data/data/com.supernova.skvk_application/files/ephemeris'' demo_start
       = Returns () s1"
    "swe_close demo_lib s1 = Returns () s2"
    "JNI_OnLoad demo_lib () () demo_start = Returns JNI_VERSION_1_6 s2"
    "JNI_OnLoad demo_lib True (5::nat) demo_start = JNI_OnLoad demo_lib () () demo_start"
    by blast
  with set close opened show ?thesis
    by (simp add: JNI_VERSION_1_6_def)
qed

end
